theory Spec2Isabelle
  imports Complex_Main
begin

unbundle bit_operations_syntax

section \<open>Python values\<close>

text \<open>
  The tracker of \<^verbatim>\<open>src/code1.py\<close> and \<^verbatim>\<open>src/space_debris_tracker.py\<close> keeps its
  detections as Python tuples that mix integers and strings, and reads them back from a
  CSV file as tuples of strings. A Python value is therefore a tagged value, and a tuple
  is a list of them. Bytes are lists of \<^typ>\<open>char\<close> (8-bit characters).
\<close>

datatype pyval = PInt int | PStr string | PBytes string

text \<open>
  An exception derived from Python's \<^verbatim>\<open>Exception\<close>, with its name or message. It is a
  value of the model: a computation that may raise returns \<open>Inl\<close> of it.
\<close>

datatype py_exception = PyException string

subsection \<open>\<^verbatim>\<open>str()\<close>\<close>

definition digit_char :: "nat \<Rightarrow> char" where
  "digit_char d = ''0123456789abcdef'' ! d"

fun str_nat :: "nat \<Rightarrow> string" where
  "str_nat n = (if n < 10 then [digit_char n] else str_nat (n div 10) @ [digit_char (n mod 10)])"

declare str_nat.simps [simp del]

text \<open>
  \<^verbatim>\<open>repr\<close> of a bytes object, which is what \<^verbatim>\<open>str()\<close> gives for it: the prefix \<^verbatim>\<open>b\<close>,
  a quote (a double quote only when the bytes hold a single quote and no double quote),
  and each byte printed or escaped.
\<close>

definition bytes_quote :: "string \<Rightarrow> char" where
  "bytes_quote b = (if CHR 0x27 \<in> set b \<and> CHR 0x22 \<notin> set b then CHR 0x22 else CHR 0x27)"

definition escape_byte :: "char \<Rightarrow> char \<Rightarrow> string" where
  "escape_byte quote c =
     (if c = quote \<or> c = CHR 0x5C then [CHR 0x5C, c]
      else if c = CHR 0x09 then [CHR 0x5C, CHR ''t'']
      else if c = CHR 0x0A then [CHR 0x5C, CHR ''n'']
      else if c = CHR 0x0D then [CHR 0x5C, CHR ''r'']
      else if (of_char c :: nat) < 32 \<or> 127 \<le> (of_char c :: nat)
        then [CHR 0x5C, CHR ''x'', digit_char (of_char c div 16), digit_char (of_char c mod 16)]
      else [c])"

definition bytes_repr :: "string \<Rightarrow> string" where
  "bytes_repr b = CHR ''b'' # bytes_quote b # concat (map (escape_byte (bytes_quote b)) b) @ [bytes_quote b]"

fun py_str :: "pyval \<Rightarrow> string" where
  "py_str (PInt i) = (if i < 0 then CHR ''-'' # str_nat (nat (- i)) else str_nat (nat i))"
| "py_str (PStr s) = s"
| "py_str (PBytes b) = bytes_repr b"

subsection \<open>Floats\<close>

text \<open>
  \<^verbatim>\<open>cv2.contourArea\<close> and \<^verbatim>\<open>cv2.moments\<close> return finite Python floats. A finite double
  is a rational number, and Python compares an \<^verbatim>\<open>int\<close> with a \<^verbatim>\<open>float\<close> by value, so
  the comparisons of the source are comparisons of rationals. The quotient of two floats
  is the exact quotient rounded to a double: the rounding \<open>fl\<close> is a parameter of the
  model, about which nothing is assumed (the identity is the exact quotient). The
  quotient is taken to stay in the range of the doubles, as a centroid inside the frame
  does. Division by zero raises.
\<close>

definition py_truediv :: "(rat \<Rightarrow> rat) \<Rightarrow> rat \<Rightarrow> rat \<Rightarrow> py_exception + rat" where
  "py_truediv fl a b = (if b = 0 then Inl (PyException ''ZeroDivisionError'') else Inr (fl (a / b)))"

text \<open>\<^verbatim>\<open>int()\<close> of a float truncates towards zero.\<close>

definition py_int :: "rat \<Rightarrow> int" where
  "py_int q = (if 0 \<le> q then \<lfloor>q\<rfloor> else \<lceil>q\<rceil>)"

section \<open>The tracker\<close>

text \<open>
  The fields of \<^verbatim>\<open>SpaceDebrisTracker\<close> that the class itself reads and writes. The video
  device \<^verbatim>\<open>cap\<close>, the background subtractor and the lock belong to OpenCV and to the
  threading library; what they return is an input of the operations below.
\<close>

record tracker =
  frame_number :: int
  debris_data :: "pyval list list"
  debris_counter :: int
  thread_active :: bool
  min_area :: int
  max_area :: int
  visualization_enabled :: bool

text \<open>
  \<^verbatim>\<open>__init__\<close>. In \<^verbatim>\<open>code1.py\<close> the thresholds and the visualization flag are read from the
  configuration file; in \<^verbatim>\<open>space_debris_tracker.py\<close> they are the constants 50, 1000, True.
\<close>

definition code1_init :: "int \<Rightarrow> int \<Rightarrow> bool \<Rightarrow> tracker" where
  "code1_init MinArea MaxArea Enabled =
     \<lparr>frame_number = 0, debris_data = [], debris_counter = 0, thread_active = False,
      min_area = MinArea, max_area = MaxArea, visualization_enabled = Enabled\<rparr>"

definition sdt_init :: tracker where
  "sdt_init =
     \<lparr>frame_number = 0, debris_data = [], debris_counter = 0, thread_active = False,
      min_area = 50, max_area = 1000, visualization_enabled = True\<rparr>"

definition start_tracking :: "tracker \<Rightarrow> tracker" where
  "start_tracking self = self\<lparr>thread_active := True\<rparr>"

definition stop_tracking :: "tracker \<Rightarrow> tracker" where
  "stop_tracking self = self\<lparr>thread_active := False\<rparr>"

definition toggle_visualization :: "tracker \<Rightarrow> tracker" where
  "toggle_visualization self = self\<lparr>visualization_enabled := \<not> visualization_enabled self\<rparr>"

definition set_min_area :: "int \<Rightarrow> tracker \<Rightarrow> tracker" where
  "set_min_area v self = self\<lparr>min_area := v\<rparr>"

definition set_max_area :: "int \<Rightarrow> tracker \<Rightarrow> tracker" where
  "set_max_area v self = self\<lparr>max_area := v\<rparr>"

section \<open>The detection pipeline\<close>

text \<open>
  One external contour, as the loop over \<^verbatim>\<open>contours\<close> sees it: the value of
  \<^verbatim>\<open>cv2.contourArea(contour)\<close>, the three entries of \<^verbatim>\<open>cv2.moments(contour)\<close> that are
  read, and the text that \<^verbatim>\<open>datetime.now().strftime(...)\<close> gives if this contour is
  recorded.
\<close>

record contour =
  area :: rat
  m00 :: rat
  m10 :: rat
  m01 :: rat
  now :: string

text \<open>
  A frame is represented by what the OpenCV calls at the head of
  \<^verbatim>\<open>count_and_track_debris\<close> (background subtraction, median blur, threshold,
  \<^verbatim>\<open>findContours\<close>) do on it: they raise, or they return the contours.
\<close>

type_synonym frame = "py_exception + contour list"

text \<open>The \<^verbatim>\<open>for contour in contours\<close> loop of \<^verbatim>\<open>code1.py\<close>, lines 82 to 96.\<close>

fun code1_contours_loop ::
  "(rat \<Rightarrow> rat) \<Rightarrow> contour list \<Rightarrow> pyval list list \<Rightarrow> tracker \<Rightarrow> (py_exception + pyval list list) \<times> tracker" where
  "code1_contours_loop fl [] debris_positions self = (Inr debris_positions, self)"
| "code1_contours_loop fl (c # contours) debris_positions self =
     (if of_int (min_area self) < area c \<and> area c < of_int (max_area self) then
        if m00 c \<noteq> 0 then
          (case py_truediv fl (m10 c) (m00 c) of
             Inl e \<Rightarrow> (Inl e, self)
           | Inr qx \<Rightarrow>
              (case py_truediv fl (m01 c) (m00 c) of
                 Inl e \<Rightarrow> (Inl e, self)
               | Inr qy \<Rightarrow>
                  code1_contours_loop fl contours
                    (debris_positions @
                      [[PInt (frame_number self), PStr ''Space Debris'', PStr (now c),
                        PInt (py_int qx), PInt (py_int qy)]])
                    (self\<lparr>debris_counter := debris_counter self + 1\<rparr>)))
        else code1_contours_loop fl contours debris_positions self
      else code1_contours_loop fl contours debris_positions self)"

text \<open>
  \<^verbatim>\<open>count_and_track_debris\<close> of \<^verbatim>\<open>code1.py\<close>: the whole body is inside
  \<^verbatim>\<open>try ... except Exception\<close>, which logs and returns the empty list. What the body
  wrote to the tracker before it raised stays written.
\<close>

definition code1_count_and_track_debris ::
  "(rat \<Rightarrow> rat) \<Rightarrow> tracker \<Rightarrow> frame \<Rightarrow> pyval list list \<times> tracker" where
  "code1_count_and_track_debris fl self frame =
     (case frame of
        Inl e \<Rightarrow> ([], self)
      | Inr contours \<Rightarrow>
         (case code1_contours_loop fl contours [] self of
            (Inl e, self') \<Rightarrow> ([], self')
          | (Inr debris_positions, self') \<Rightarrow> (debris_positions, self')))"

text \<open>The same loop in \<^verbatim>\<open>space_debris_tracker.py\<close>, lines 31 to 45.\<close>

fun sdt_contours_loop ::
  "(rat \<Rightarrow> rat) \<Rightarrow> contour list \<Rightarrow> pyval list list \<Rightarrow> tracker \<Rightarrow> (py_exception + pyval list list) \<times> tracker" where
  "sdt_contours_loop fl [] debris_positions self = (Inr debris_positions, self)"
| "sdt_contours_loop fl (c # contours) debris_positions self =
     (if of_int (min_area self) < area c \<and> area c < of_int (max_area self) then
        if m00 c \<noteq> 0 then
          (case py_truediv fl (m10 c) (m00 c) of
             Inl e \<Rightarrow> (Inl e, self)
           | Inr qx \<Rightarrow>
              (case py_truediv fl (m01 c) (m00 c) of
                 Inl e \<Rightarrow> (Inl e, self)
               | Inr qy \<Rightarrow>
                  sdt_contours_loop fl contours
                    (debris_positions @
                      [[PInt (frame_number self), PStr ''Space Debris'', PStr (now c),
                        PInt (py_int qx), PInt (py_int qy)]])
                    (self\<lparr>debris_counter := debris_counter self + 1\<rparr>)))
        else sdt_contours_loop fl contours debris_positions self
      else sdt_contours_loop fl contours debris_positions self)"

text \<open>
  \<^verbatim>\<open>count_and_track_debris\<close> of \<^verbatim>\<open>space_debris_tracker.py\<close> has no handler: an exception
  leaves the function.
\<close>

definition sdt_count_and_track_debris ::
  "(rat \<Rightarrow> rat) \<Rightarrow> tracker \<Rightarrow> frame \<Rightarrow> (py_exception + pyval list list) \<times> tracker" where
  "sdt_count_and_track_debris fl self frame =
     (case frame of
        Inl e \<Rightarrow> (Inl e, self)
      | Inr contours \<Rightarrow> sdt_contours_loop fl contours [] self)"

section \<open>The capture loop\<close>

text \<open>
  What the world does during one pass of \<^verbatim>\<open>while self.thread_active\<close>: whether the
  controller has called \<^verbatim>\<open>stop_tracking\<close> since the previous pass, what \<^verbatim>\<open>cap.read()\<close>
  returns (\<open>None\<close> when \<^verbatim>\<open>ret\<close> is false), and what \<^verbatim>\<open>cv2.waitKey(1)\<close> returns. The
  drawing calls under \<^verbatim>\<open>visualization_enabled\<close> write nothing to the tracker; they are
  left out, and so taken to return normally, as \<^verbatim>\<open>cap.read()\<close> and \<^verbatim>\<open>cv2.waitKey\<close> are.
  The controller runs in another thread: its calls are seen here only between two passes.
\<close>

record iteration =
  stop_called :: bool
  read :: "frame option"
  key :: int

text \<open>
  The loop ends by leaving \<^verbatim>\<open>update_debris_info\<close> normally or with an exception; when the
  list of passes is used up while the loop is still inside \<^verbatim>\<open>while\<close>, it is \<open>Running\<close>.
\<close>

datatype outcome = Returned | Raised py_exception | Running

fun code1_update_debris_info ::
  "(rat \<Rightarrow> rat) \<Rightarrow> iteration list \<Rightarrow> tracker \<Rightarrow> outcome \<times> tracker" where
  "code1_update_debris_info fl [] self = (if thread_active self then Running else Returned, self)"
| "code1_update_debris_info fl (i # passes) self0 =
     (let self = (if stop_called i then stop_tracking self0 else self0) in
      if \<not> thread_active self then (Returned, self)
      else
        (case read i of
           None \<Rightarrow> (Returned, self)
         | Some frame \<Rightarrow>
            (let self1 = self\<lparr>frame_number := frame_number self + 1\<rparr>;
                 (debris_info, self2) = code1_count_and_track_debris fl self1 frame;
                 self3 = self2\<lparr>debris_data := debris_data self2 @ debris_info\<rparr>
             in if key i AND 255 = 113 then (Returned, self3)
                else code1_update_debris_info fl passes self3)))"

fun sdt_update_debris_info ::
  "(rat \<Rightarrow> rat) \<Rightarrow> iteration list \<Rightarrow> tracker \<Rightarrow> outcome \<times> tracker" where
  "sdt_update_debris_info fl [] self = (if thread_active self then Running else Returned, self)"
| "sdt_update_debris_info fl (i # passes) self0 =
     (let self = (if stop_called i then stop_tracking self0 else self0) in
      if \<not> thread_active self then (Returned, self)
      else
        (case read i of
           None \<Rightarrow> (Returned, self)
         | Some frame \<Rightarrow>
            (let self1 = self\<lparr>frame_number := frame_number self + 1\<rparr> in
             case sdt_count_and_track_debris fl self1 frame of
               (Inl e, self2) \<Rightarrow> (Raised e, self2)
             | (Inr debris_info, self2) \<Rightarrow>
                (let self3 = self2\<lparr>debris_data := debris_data self2 @ debris_info\<rparr>
                 in if key i AND 255 = 113 then (Returned, self3)
                    else sdt_update_debris_info fl passes self3))))"

section \<open>Saving and loading\<close>

text \<open>
  A CSV file is its rows, each a list of cells. \<^verbatim>\<open>csv.writer.writerow\<close> writes a string
  cell as it is and any other value through \<^verbatim>\<open>str()\<close>; \<^verbatim>\<open>csv.reader\<close> gives every cell
  back as a string. The quoting the module adds and removes in between is its own business.
\<close>

definition writerow :: "pyval list \<Rightarrow> string list" where
  "writerow row = map py_str row"

text \<open>
  \<^verbatim>\<open>save_debris_data\<close> of \<^verbatim>\<open>code1.py\<close>, with \<^verbatim>\<open>encrypt_message\<close> (text to bytes) as a
  parameter: the key and the cipher belong to the cryptography library. The result is
  the content of the file.
\<close>

definition save_debris_data :: "(string \<Rightarrow> string) \<Rightarrow> tracker \<Rightarrow> string list list" where
  "save_debris_data encrypt_message self =
     writerow [PStr ''FrameNumber'', PStr ''DebrisName'', PStr ''DetectionTime'', PStr ''X'', PStr ''Y'']
     # map (\<lambda>debris_info. writerow (map (\<lambda>item. PBytes (encrypt_message (py_str item))) debris_info))
         (debris_data self)"

text \<open>
  \<^verbatim>\<open>[decrypt_message(item) for item in row]\<close>: the first cell that fails to decrypt raises.
\<close>

fun decrypt_row :: "(string \<Rightarrow> py_exception + string) \<Rightarrow> string list \<Rightarrow> py_exception + string list" where
  "decrypt_row decrypt_message [] = Inr []"
| "decrypt_row decrypt_message (item # row) =
     (case decrypt_message item of
        Inl e \<Rightarrow> Inl e
      | Inr s \<Rightarrow> (case decrypt_row decrypt_message row of Inl e \<Rightarrow> Inl e | Inr ss \<Rightarrow> Inr (s # ss)))"

text \<open>
  The \<^verbatim>\<open>for row in reader\<close> loop of \<^verbatim>\<open>load_debris_data\<close>: each row is appended to
  \<^verbatim>\<open>self.debris_data\<close> as soon as it is decrypted. The first component of the result is
  the exception that the handler logs, if any.
\<close>

fun load_rows ::
  "(string \<Rightarrow> py_exception + string) \<Rightarrow> string list list \<Rightarrow> tracker \<Rightarrow> py_exception option \<times> tracker" where
  "load_rows decrypt_message [] self = (None, self)"
| "load_rows decrypt_message (row # rows) self =
     (case decrypt_row decrypt_message row of
        Inl e \<Rightarrow> (Some e, self)
      | Inr decrypted_data \<Rightarrow>
         load_rows decrypt_message rows
           (self\<lparr>debris_data := debris_data self @ [map PStr decrypted_data]\<rparr>))"

text \<open>
  \<^verbatim>\<open>load_debris_data\<close>: the file is \<open>None\<close> when \<^verbatim>\<open>open\<close> fails. The log is emptied
  before the header is skipped; \<^verbatim>\<open>next(reader)\<close> on a file with no row raises
  \<^verbatim>\<open>StopIteration\<close>.
\<close>

definition load_debris_data ::
  "(string \<Rightarrow> py_exception + string) \<Rightarrow> string list list option \<Rightarrow> tracker \<Rightarrow> py_exception option \<times> tracker" where
  "load_debris_data decrypt_message file self =
     (case file of
        None \<Rightarrow> (Some (PyException ''OSError''), self)
      | Some [] \<Rightarrow> (Some (PyException ''StopIteration''), self\<lparr>debris_data := []\<rparr>)
      | Some (header # rows) \<Rightarrow> load_rows decrypt_message rows (self\<lparr>debris_data := []\<rparr>))"

text \<open>The frame number of a record of the log: its first field, when that is an integer.\<close>

fun frame_number_of :: "pyval list \<Rightarrow> int option" where
  "frame_number_of (PInt n # items) = Some n"
| "frame_number_of items = None"

fun log_frames :: "pyval list list \<Rightarrow> int list option" where
  "log_frames [] = Some []"
| "log_frames (r # records) =
     (case frame_number_of r of
        None \<Rightarrow> None
      | Some n \<Rightarrow> (case log_frames records of None \<Rightarrow> None | Some ns \<Rightarrow> Some (n # ns)))"

text \<open>
  A stand-in for \<^verbatim>\<open>decrypt_message\<close> in the examples: it accepts exactly the cells that
  \<^verbatim>\<open>str()\<close> of a bytes token produces, \<^verbatim>\<open>b'...'\<close>, and returns what stands between the
  quotes; any other cell is an invalid token.
\<close>

definition example_decrypt :: "string \<Rightarrow> py_exception + string" where
  "example_decrypt item =
     (if 3 \<le> length item \<and> take 2 item = [CHR ''b'', CHR 0x27] \<and> last item = CHR 0x27
      then Inr (butlast (drop 2 item)) else Inl (PyException ''InvalidToken''))"

text \<open>
  A stand-in for the cipher of \<^verbatim>\<open>code1.py\<close> in the examples, with what matters of Fernet
  here. A token is the version prefix \<^verbatim>\<open>gAAAAA\<close>, with which every Fernet token starts,
  followed by the message; \<^verbatim>\<open>decrypt_message\<close> gives the message of a token back and
  raises \<^verbatim>\<open>InvalidToken\<close> on anything that is not a token, as
  \<^verbatim>\<open>Fernet.decrypt\<close> does.
\<close>

definition token_encrypt :: "string \<Rightarrow> string" where
  "token_encrypt message = ''gAAAAA'' @ message"

definition token_decrypt :: "string \<Rightarrow> py_exception + string" where
  "token_decrypt token =
     (if take 6 token = ''gAAAAA'' then Inr (drop 6 token) else Inl (PyException ''InvalidToken''))"

section \<open>Facts about the model\<close>

subsection \<open>The loop over the contours\<close>

text \<open>
  Both loops return normally, with one record for each contour whose area is strictly
  between the thresholds and whose \<^verbatim>\<open>m00\<close> is not zero, in the order of the contours,
  and with the counter advanced by the number of those records.
\<close>

lemma code1_contours_loop_eq:
  "code1_contours_loop fl cs acc self =
     (Inr (acc @ map (\<lambda>c. [PInt (frame_number self), PStr ''Space Debris'', PStr (now c),
                            PInt (py_int (fl (m10 c / m00 c))), PInt (py_int (fl (m01 c / m00 c)))])
                 (filter (\<lambda>c. of_int (min_area self) < area c \<and> area c < of_int (max_area self) \<and> m00 c \<noteq> 0) cs)),
      self\<lparr>debris_counter := debris_counter self
          + int (length (filter (\<lambda>c. of_int (min_area self) < area c \<and> area c < of_int (max_area self) \<and> m00 c \<noteq> 0) cs))\<rparr>)"
  by (induction cs arbitrary: acc self) (simp_all add: py_truediv_def)

lemma sdt_contours_loop_eq:
  "sdt_contours_loop fl cs acc self =
     (Inr (acc @ map (\<lambda>c. [PInt (frame_number self), PStr ''Space Debris'', PStr (now c),
                            PInt (py_int (fl (m10 c / m00 c))), PInt (py_int (fl (m01 c / m00 c)))])
                 (filter (\<lambda>c. of_int (min_area self) < area c \<and> area c < of_int (max_area self) \<and> m00 c \<noteq> 0) cs)),
      self\<lparr>debris_counter := debris_counter self
          + int (length (filter (\<lambda>c. of_int (min_area self) < area c \<and> area c < of_int (max_area self) \<and> m00 c \<noteq> 0) cs))\<rparr>)"
  by (induction cs arbitrary: acc self) (simp_all add: py_truediv_def)

lemma code1_count_Inr:
  "code1_count_and_track_debris fl self (Inr cs) =
     (map (\<lambda>c. [PInt (frame_number self), PStr ''Space Debris'', PStr (now c),
                 PInt (py_int (fl (m10 c / m00 c))), PInt (py_int (fl (m01 c / m00 c)))])
        (filter (\<lambda>c. of_int (min_area self) < area c \<and> area c < of_int (max_area self) \<and> m00 c \<noteq> 0) cs),
      self\<lparr>debris_counter := debris_counter self
          + int (length (filter (\<lambda>c. of_int (min_area self) < area c \<and> area c < of_int (max_area self) \<and> m00 c \<noteq> 0) cs))\<rparr>)"
  by (simp add: code1_count_and_track_debris_def code1_contours_loop_eq)

lemma sdt_count_Inr:
  "sdt_count_and_track_debris fl self (Inr cs) =
     (Inr (map (\<lambda>c. [PInt (frame_number self), PStr ''Space Debris'', PStr (now c),
                 PInt (py_int (fl (m10 c / m00 c))), PInt (py_int (fl (m01 c / m00 c)))])
        (filter (\<lambda>c. of_int (min_area self) < area c \<and> area c < of_int (max_area self) \<and> m00 c \<noteq> 0) cs)),
      self\<lparr>debris_counter := debris_counter self
          + int (length (filter (\<lambda>c. of_int (min_area self) < area c \<and> area c < of_int (max_area self) \<and> m00 c \<noteq> 0) cs))\<rparr>)"
  by (simp add: sdt_count_and_track_debris_def sdt_contours_loop_eq)

lemma filter_area_absorb:
  "(\<lambda>c. (lo::rat) < area c \<and> area c < hi \<and> lo < area c \<and> area c < hi \<and> m00 c \<noteq> 0)
     = (\<lambda>c. lo < area c \<and> area c < hi \<and> m00 c \<noteq> 0)"
  by auto

lemma code1_count_Inl: "code1_count_and_track_debris fl self (Inl e) = ([], self)"
  by (simp add: code1_count_and_track_debris_def)

lemma sdt_count_Inl: "sdt_count_and_track_debris fl self (Inl e) = (Inl e, self)"
  by (simp add: sdt_count_and_track_debris_def)

lemma code1_count_snd:
  "snd (code1_count_and_track_debris fl self frame) =
     self\<lparr>debris_counter := debris_counter self + int (length (fst (code1_count_and_track_debris fl self frame)))\<rparr>"
  by (cases frame) (simp_all add: code1_count_Inl code1_count_Inr)

lemma code1_count_frames:
  "r \<in> set (fst (code1_count_and_track_debris fl self frame)) \<Longrightarrow> frame_number_of r = Some (frame_number self)"
  by (cases frame) (auto simp add: code1_count_Inl code1_count_Inr)

subsection \<open>One pass of the capture loop\<close>

lemma code1_update_step:
  "code1_update_debris_info fl (i # passes) self =
     (if stop_called i \<or> \<not> thread_active self then (Returned, if stop_called i then stop_tracking self else self)
      else case read i of
        None \<Rightarrow> (Returned, self)
      | Some frame \<Rightarrow>
          if key i AND 255 = 113
          then (Returned, self\<lparr>frame_number := frame_number self + 1,
                  debris_counter := debris_counter self
                    + int (length (fst (code1_count_and_track_debris fl (self\<lparr>frame_number := frame_number self + 1\<rparr>) frame))),
                  debris_data := debris_data self
                    @ fst (code1_count_and_track_debris fl (self\<lparr>frame_number := frame_number self + 1\<rparr>) frame)\<rparr>)
          else code1_update_debris_info fl passes
                 (self\<lparr>frame_number := frame_number self + 1,
                  debris_counter := debris_counter self
                    + int (length (fst (code1_count_and_track_debris fl (self\<lparr>frame_number := frame_number self + 1\<rparr>) frame))),
                  debris_data := debris_data self
                    @ fst (code1_count_and_track_debris fl (self\<lparr>frame_number := frame_number self + 1\<rparr>) frame)\<rparr>))"
  by (simp add: Let_def stop_tracking_def split_beta code1_count_snd split: option.split)

lemma sdt_update_step:
  "sdt_update_debris_info fl (i # passes) self =
     (if stop_called i \<or> \<not> thread_active self then (Returned, if stop_called i then stop_tracking self else self)
      else case read i of
        None \<Rightarrow> (Returned, self)
      | Some (Inl e) \<Rightarrow> (Raised e, self\<lparr>frame_number := frame_number self + 1\<rparr>)
      | Some (Inr contours) \<Rightarrow>
          if key i AND 255 = 113
          then (Returned, self\<lparr>frame_number := frame_number self + 1,
                  debris_counter := debris_counter self
                    + int (length (fst (code1_count_and_track_debris fl (self\<lparr>frame_number := frame_number self + 1\<rparr>) (Inr contours)))),
                  debris_data := debris_data self
                    @ fst (code1_count_and_track_debris fl (self\<lparr>frame_number := frame_number self + 1\<rparr>) (Inr contours))\<rparr>)
          else sdt_update_debris_info fl passes
                 (self\<lparr>frame_number := frame_number self + 1,
                  debris_counter := debris_counter self
                    + int (length (fst (code1_count_and_track_debris fl (self\<lparr>frame_number := frame_number self + 1\<rparr>) (Inr contours)))),
                  debris_data := debris_data self
                    @ fst (code1_count_and_track_debris fl (self\<lparr>frame_number := frame_number self + 1\<rparr>) (Inr contours))\<rparr>))"
  by (simp add: Let_def stop_tracking_def sdt_count_Inl sdt_count_Inr code1_count_Inr split: option.split sum.split)

lemma code1_loop_counter:
  "debris_counter (snd (code1_update_debris_info fl passes self))
     - int (length (debris_data (snd (code1_update_debris_info fl passes self))))
   = debris_counter self - int (length (debris_data self))"
proof (induction passes arbitrary: self)
  case Nil
  show ?case by simp
next
  case (Cons i passes)
  show ?case
    unfolding code1_update_step
    by (simp add: Cons.IH stop_tracking_def split: option.split)
qed

lemma sdt_loop_counter:
  "debris_counter (snd (sdt_update_debris_info fl passes self))
     - int (length (debris_data (snd (sdt_update_debris_info fl passes self))))
   = debris_counter self - int (length (debris_data self))"
proof (induction passes arbitrary: self)
  case Nil
  show ?case by simp
next
  case (Cons i passes)
  show ?case
    unfolding sdt_update_step
    by (simp add: Cons.IH stop_tracking_def split: option.split sum.split)
qed

lemma load_rows_counter: "debris_counter (snd (load_rows d rows self)) = debris_counter self"
  by (induction rows arbitrary: self) (simp_all split: sum.split)

lemma load_counter: "debris_counter (snd (load_debris_data d file self)) = debris_counter self"
  by (simp add: load_debris_data_def load_rows_counter split: option.split list.split)

lemma log_frames_append:
  "log_frames xs = Some ns \<Longrightarrow> log_frames ys = Some ms \<Longrightarrow> log_frames (xs @ ys) = Some (ns @ ms)"
  by (induction xs arbitrary: ns) (auto split: option.splits)

lemma log_frames_same:
  "(\<And>r. r \<in> set rs \<Longrightarrow> frame_number_of r = Some n) \<Longrightarrow> log_frames rs = Some (replicate (length rs) n)"
  by (induction rs) auto

lemma code1_loop_sorted:
  "log_frames (debris_data self) = Some ns \<Longrightarrow> sorted ns \<Longrightarrow> \<forall>n \<in> set ns. n \<le> frame_number self \<Longrightarrow>
   \<exists>ms. log_frames (debris_data (snd (code1_update_debris_info fl passes self))) = Some ms \<and> sorted ms"
proof (induction passes arbitrary: self ns)
  case Nil
  then show ?case by simp
next
  case (Cons i passes)
  show ?case
  proof (cases "stop_called i \<or> \<not> thread_active self")
    case True
    with Cons.prems show ?thesis
      unfolding code1_update_step by (auto simp add: stop_tracking_def)
  next
    case active: False
    show ?thesis
    proof (cases "read i")
      case None
      with active Cons.prems show ?thesis
        unfolding code1_update_step by simp
    next
      case (Some frame)
      define self1 where "self1 = self\<lparr>frame_number := frame_number self + 1\<rparr>"
      define recs where "recs = fst (code1_count_and_track_debris fl self1 frame)"
      define self3 where "self3 = self\<lparr>frame_number := frame_number self + 1,
          debris_counter := debris_counter self + int (length recs),
          debris_data := debris_data self @ recs\<rparr>"
      have recs: "log_frames recs = Some (replicate (length recs) (frame_number self + 1))"
        using log_frames_same [of recs "frame_number self + 1"] code1_count_frames [of _ fl self1 frame]
        by (simp add: recs_def self1_def)
      have lf: "log_frames (debris_data self3) = Some (ns @ replicate (length recs) (frame_number self + 1))"
        using log_frames_append [OF Cons.prems(1) recs] by (simp add: self3_def)
      have srt: "sorted (ns @ replicate (length recs) (frame_number self + 1))"
        using Cons.prems(2,3) by (auto simp add: sorted_append)
      have bnd: "\<forall>n \<in> set (ns @ replicate (length recs) (frame_number self + 1)). n \<le> frame_number self3"
        using Cons.prems(3) by (auto simp add: self3_def)
      have step: "code1_update_debris_info fl (i # passes) self =
          (if key i AND 255 = 113 then (Returned, self3) else code1_update_debris_info fl passes self3)"
        unfolding code1_update_step using active Some by (simp add: self3_def recs_def self1_def)
      show ?thesis
      proof (cases "key i AND 255 = 113")
        case True
        with step lf srt show ?thesis by simp
      next
        case False
        with step Cons.IH [OF lf srt bnd] show ?thesis by simp
      qed
    qed
  qed
qed



subsection \<open>Rows of a file\<close>

lemma load_rows_append:
  "map (decrypt_row decrypt_message) pre = map Inr decoded \<Longrightarrow>
   load_rows decrypt_message (pre @ rest) self =
     load_rows decrypt_message rest (self\<lparr>debris_data := debris_data self @ map (map PStr) decoded\<rparr>)"
proof (induction pre arbitrary: decoded self)
  case Nil
  then show ?case by simp
next
  case (Cons row pre)
  from Cons.prems obtain d ds where d: "decoded = d # ds" "decrypt_row decrypt_message row = Inr d"
    "map (decrypt_row decrypt_message) pre = map Inr ds"
    by (cases decoded) auto
  from Cons.IH [OF d(3)] d(1,2) show ?case by simp
qed

lemma decrypt_row_fails:
  "item \<in> set row \<Longrightarrow> decrypt_message item = Inl e0 \<Longrightarrow> \<exists>e. decrypt_row decrypt_message row = Inl e"
  by (induction row) (auto split: sum.splits)

lemma token_decrypt_encrypt: "token_decrypt (token_encrypt message) = Inr message"
  by (simp add: token_decrypt_def token_encrypt_def)

lemma token_decrypt_wrapped:
  "token_decrypt (bytes_repr token) = Inl (PyException ''InvalidToken'')"
  by (simp add: token_decrypt_def bytes_repr_def)

section \<open>Claims about saving and loading\<close>

text \<open>
  Claim C1 says that loading a saved log gives the same log back. The code does not do
  that. \<^verbatim>\<open>save_debris_data\<close> hands each bytes token to \<^verbatim>\<open>csv.writer\<close>, which writes
  \<^verbatim>\<open>str()\<close> of it: the cell is the token wrapped in \<^verbatim>\<open>b'...'\<close>, not the token. Whenever
  \<^verbatim>\<open>decrypt_message\<close> raises on the wrapped cell of some field of the first record, as
  the Fernet cipher of \<^verbatim>\<open>code1.py\<close> does on every such cell, loading the file that was
  just saved stops at the first row with that exception logged and leaves the log empty,
  whatever \<^verbatim>\<open>encrypt_message\<close> is and whatever the log was before the load.
\<close>

theorem load_of_save_fails:
  assumes "debris_data self = debris_info # records"
    and "item \<in> set debris_info"
    and "decrypt_message (bytes_repr (encrypt_message (py_str item))) = Inl e0"
  shows "\<exists>e. load_debris_data decrypt_message (Some (save_debris_data encrypt_message self)) self' =
           (Some e, self'\<lparr>debris_data := []\<rparr>)"
proof -
  have cell: "bytes_repr (encrypt_message (py_str item)) \<in>
      set (writerow (map (\<lambda>item. PBytes (encrypt_message (py_str item))) debris_info))"
    using assms(2) by (force simp add: writerow_def)
  from decrypt_row_fails [of "bytes_repr (encrypt_message (py_str item))"
      "writerow (map (\<lambda>item. PBytes (encrypt_message (py_str item))) debris_info)"
      decrypt_message e0] cell assms(3)
  obtain e where "decrypt_row decrypt_message
      (writerow (map (\<lambda>item. PBytes (encrypt_message (py_str item))) debris_info)) = Inl e"
    by blast
  then show ?thesis
    using assms(1) by (simp add: load_debris_data_def save_debris_data_def)
qed

theorem load_of_save_fails_witness:
  "token_decrypt (token_encrypt ''4'') = Inr ''4''
   \<and> load_debris_data token_decrypt
     (Some (save_debris_data token_encrypt
        ((code1_init 50 1000 False)\<lparr>debris_data :=
           [[PInt 4, PStr ''Space Debris'', PStr ''2024-05-01 12:00:00'', PInt 50, PInt 30]]\<rparr>)))
     ((code1_init 50 1000 False)\<lparr>debris_data :=
           [[PInt 4, PStr ''Space Debris'', PStr ''2024-05-01 12:00:00'', PInt 50, PInt 30]]\<rparr>)
   = (Some (PyException ''InvalidToken''), (code1_init 50 1000 False)\<lparr>debris_data := []\<rparr>)"
  using load_of_save_fails [of
      "(code1_init 50 1000 False)\<lparr>debris_data :=
           [[PInt 4, PStr ''Space Debris'', PStr ''2024-05-01 12:00:00'', PInt 50, PInt 30]]\<rparr>"
      "[PInt 4, PStr ''Space Debris'', PStr ''2024-05-01 12:00:00'', PInt 50, PInt 30]" "[]"
      "PInt 4" token_decrypt token_encrypt "PyException ''InvalidToken''"
      "(code1_init 50 1000 False)\<lparr>debris_data :=
           [[PInt 4, PStr ''Space Debris'', PStr ''2024-05-01 12:00:00'', PInt 50, PInt 30]]\<rparr>"]
  by (simp add: code1_init_def load_debris_data_def save_debris_data_def writerow_def
      token_decrypt_wrapped token_decrypt_encrypt)

text \<open>
  Claim C2 says that a load in which a field fails to decrypt leaves the log as it was.
  Here the second data row of the file has an invalid cell: the load stops with the
  exception, the record that was in the log is gone and the first row of the file is in
  its place.
\<close>

theorem failed_load_changes_log:
  "debris_data (snd (load_debris_data example_decrypt
     (Some [[''FrameNumber'', ''DebrisName'', ''DetectionTime'', ''X'', ''Y''],
            [[CHR ''b'', CHR 0x27, CHR ''7'', CHR 0x27], [CHR ''b'', CHR 0x27, CHR ''x'', CHR 0x27]],
            [[CHR ''b'', CHR 0x27, CHR ''8'', CHR 0x27], ''garbage'']])
     ((code1_init 50 1000 False)\<lparr>debris_data := [[PInt 1, PStr ''Space Debris'', PStr ''t'', PInt 2, PInt 3]]\<rparr>)))
   = [[PStr ''7'', PStr ''x'']]
   \<and> fst (load_debris_data example_decrypt
     (Some [[''FrameNumber'', ''DebrisName'', ''DetectionTime'', ''X'', ''Y''],
            [[CHR ''b'', CHR 0x27, CHR ''7'', CHR 0x27], [CHR ''b'', CHR 0x27, CHR ''x'', CHR 0x27]],
            [[CHR ''b'', CHR 0x27, CHR ''8'', CHR 0x27], ''garbage'']])
     ((code1_init 50 1000 False)\<lparr>debris_data := [[PInt 1, PStr ''Space Debris'', PStr ''t'', PInt 2, PInt 3]]\<rparr>))
   = Some (PyException ''InvalidToken'')
   \<and> debris_data (snd (load_debris_data example_decrypt
     (Some [[''FrameNumber'', ''DebrisName'', ''DetectionTime'', ''X'', ''Y''],
            [[CHR ''b'', CHR 0x27, CHR ''7'', CHR 0x27], [CHR ''b'', CHR 0x27, CHR ''x'', CHR 0x27]],
            [[CHR ''b'', CHR 0x27, CHR ''8'', CHR 0x27], ''garbage'']])
     ((code1_init 50 1000 False)\<lparr>debris_data := [[PInt 1, PStr ''Space Debris'', PStr ''t'', PInt 2, PInt 3]]\<rparr>)))
   \<noteq> debris_data ((code1_init 50 1000 False)\<lparr>debris_data := [[PInt 1, PStr ''Space Debris'', PStr ''t'', PInt 2, PInt 3]]\<rparr>)"
  by (simp add: code1_init_def example_decrypt_def load_debris_data_def)

text \<open>
  Claim C2, as the code has it: \<^verbatim>\<open>load_debris_data\<close> empties the log before it reads, and
  appends each row as soon as it is decrypted. When a cell of a row fails to decrypt, the
  load stops there with the exception logged, and the log holds exactly the rows before
  that row, decrypted, in the order of the file. The log is left as it was only when the
  file cannot be opened.
\<close>

theorem failed_load_keeps_decoded_rows:
  "(map (decrypt_row decrypt_message) pre = map Inr decoded \<and> item \<in> set bad \<and> decrypt_message item = Inl e0 \<longrightarrow>
      (\<exists>e. load_debris_data decrypt_message (Some (header # pre @ bad # post)) self =
             (Some e, self\<lparr>debris_data := map (map PStr) decoded\<rparr>)))
   \<and> snd (load_debris_data decrypt_message None self) = self"
proof -
  have "\<exists>e. load_debris_data decrypt_message (Some (header # pre @ bad # post)) self =
             (Some e, self\<lparr>debris_data := map (map PStr) decoded\<rparr>)"
    if pre: "map (decrypt_row decrypt_message) pre = map Inr decoded"
      and bad: "item \<in> set bad" "decrypt_message item = Inl e0"
  proof -
    from decrypt_row_fails [of item bad decrypt_message e0] bad
    obtain e where e: "decrypt_row decrypt_message bad = Inl e" by blast
    from load_rows_append [OF pre, of "bad # post" "self\<lparr>debris_data := []\<rparr>"] e
    show ?thesis by (simp add: load_debris_data_def)
  qed
  then show ?thesis by (simp add: load_debris_data_def)
qed

theorem failed_load_keeps_decoded_rows_witness:
  "load_debris_data example_decrypt
     (Some [[''FrameNumber'', ''DebrisName'', ''DetectionTime'', ''X'', ''Y''],
            [[CHR ''b'', CHR 0x27, CHR ''7'', CHR 0x27], [CHR ''b'', CHR 0x27, CHR ''x'', CHR 0x27]],
            [[CHR ''b'', CHR 0x27, CHR ''8'', CHR 0x27], ''garbage''],
            [[CHR ''b'', CHR 0x27, CHR ''9'', CHR 0x27], [CHR ''b'', CHR 0x27, CHR ''y'', CHR 0x27]]])
     ((code1_init 50 1000 False)\<lparr>debris_data := [[PInt 1, PStr ''Space Debris'', PStr ''t'', PInt 2, PInt 3]]\<rparr>)
   = (Some (PyException ''InvalidToken''),
      (code1_init 50 1000 False)\<lparr>debris_data := [[PStr ''7'', PStr ''x'']]\<rparr>)"
  using failed_load_keeps_decoded_rows [of example_decrypt
      "[[[CHR ''b'', CHR 0x27, CHR ''7'', CHR 0x27], [CHR ''b'', CHR 0x27, CHR ''x'', CHR 0x27]]]"
      "[[''7'', ''x'']]" "''garbage''"
      "[[CHR ''b'', CHR 0x27, CHR ''8'', CHR 0x27], ''garbage'']"
      "PyException ''InvalidToken''"
      "[''FrameNumber'', ''DebrisName'', ''DetectionTime'', ''X'', ''Y'']"
      "[[[CHR ''b'', CHR 0x27, CHR ''9'', CHR 0x27], [CHR ''b'', CHR 0x27, CHR ''y'', CHR 0x27]]]"
      "(code1_init 50 1000 False)\<lparr>debris_data := [[PInt 1, PStr ''Space Debris'', PStr ''t'', PInt 2, PInt 3]]\<rparr>"]
  by (simp add: code1_init_def example_decrypt_def load_debris_data_def)

section \<open>Claims about the detection pipeline\<close>

text \<open>
  Claim C3: a region yields a detection only if its area is strictly between
  \<^verbatim>\<open>min_area\<close> and \<^verbatim>\<open>max_area\<close>. In both files the result of
  \<^verbatim>\<open>count_and_track_debris\<close>, records and tracker, is the same as on the contours whose
  area is strictly inside the interval alone; a single region whose area equals one of
  the two bounds gives no record and leaves the tracker as it was; and a single region
  that gives a record has its area strictly inside the interval.
\<close>

theorem area_strictly_inside:
  "code1_count_and_track_debris fl self (Inr contours) =
     code1_count_and_track_debris fl self
       (Inr (filter (\<lambda>c. of_int (min_area self) < area c \<and> area c < of_int (max_area self)) contours))
   \<and> sdt_count_and_track_debris fl self (Inr contours) =
     sdt_count_and_track_debris fl self
       (Inr (filter (\<lambda>c. of_int (min_area self) < area c \<and> area c < of_int (max_area self)) contours))
   \<and> (area c = of_int (min_area self) \<or> area c = of_int (max_area self) \<longrightarrow>
        code1_count_and_track_debris fl self (Inr [c]) = ([], self)
        \<and> sdt_count_and_track_debris fl self (Inr [c]) = (Inr [], self))
   \<and> (fst (code1_count_and_track_debris fl self (Inr [c])) \<noteq> [] \<longrightarrow>
        of_int (min_area self) < area c \<and> area c < of_int (max_area self))
   \<and> (fst (sdt_count_and_track_debris fl self (Inr [c])) \<noteq> Inr [] \<longrightarrow>
        of_int (min_area self) < area c \<and> area c < of_int (max_area self))"
  by (auto simp add: code1_count_Inr sdt_count_Inr filter_area_absorb)

theorem area_strictly_inside_witness:
  "code1_count_and_track_debris id (code1_init 50 1000 True)
       (Inr [\<lparr>area = 50, m00 = 50, m10 = 100, m01 = 100, now = ''t''\<rparr>]) = ([], code1_init 50 1000 True)
   \<and> sdt_count_and_track_debris id sdt_init
       (Inr [\<lparr>area = 1000, m00 = 1000, m10 = 100, m01 = 100, now = ''t''\<rparr>]) = (Inr [], sdt_init)"
  using area_strictly_inside [of id "code1_init 50 1000 True" "[]" "\<lparr>area = 50, m00 = 50, m10 = 100, m01 = 100, now = ''t''\<rparr>"]
    area_strictly_inside [of id sdt_init "[]" "\<lparr>area = 1000, m00 = 1000, m10 = 100, m01 = 100, now = ''t''\<rparr>"]
  by (simp add: code1_init_def sdt_init_def)

text \<open>
  Claim C4: in \<^verbatim>\<open>code1.py\<close> the records returned are, in the order of the contours, one
  for each region whose area is strictly inside the interval and whose \<^verbatim>\<open>m00\<close> is not
  zero, with \<^verbatim>\<open>x = int(m10 / m00)\<close> and \<^verbatim>\<open>y = int(m01 / m00)\<close>, the float quotients
  truncated towards zero. Under the thresholds 50 and 1000, one region of area 120 with
  moments \<^verbatim>\<open>m00 = 120\<close>, \<^verbatim>\<open>m10 = 6000\<close>, \<^verbatim>\<open>m01 = 3600\<close> gives exactly one record,
  with \<^verbatim>\<open>x = 50\<close> and \<^verbatim>\<open>y = 30\<close>: the quotients 50 and 30 are doubles, which the
  rounding leaves as they are.
\<close>

theorem centroid_truncated:
  "fst (code1_count_and_track_debris fl self (Inr contours)) =
     map (\<lambda>c. [PInt (frame_number self), PStr ''Space Debris'', PStr (now c),
                PInt (py_int (fl (m10 c / m00 c))), PInt (py_int (fl (m01 c / m00 c)))])
       (filter (\<lambda>c. of_int (min_area self) < area c \<and> area c < of_int (max_area self) \<and> m00 c \<noteq> 0) contours)
   \<and> (min_area self = 50 \<and> max_area self = 1000 \<and> fl 50 = 50 \<and> fl 30 = 30 \<longrightarrow>
        fst (code1_count_and_track_debris fl self
              (Inr [\<lparr>area = 120, m00 = 120, m10 = 6000, m01 = 3600, now = t\<rparr>])) =
          [[PInt (frame_number self), PStr ''Space Debris'', PStr t, PInt 50, PInt 30]])"
  by (simp add: code1_count_Inr py_int_def)

theorem centroid_truncated_witness:
  "fst (code1_count_and_track_debris id ((code1_init 50 1000 False)\<lparr>frame_number := 7\<rparr>)
          (Inr [\<lparr>area = 120, m00 = 120, m10 = 6000, m01 = 3600, now = ''2024-05-01 12:00:00''\<rparr>])) =
     [[PInt 7, PStr ''Space Debris'', PStr ''2024-05-01 12:00:00'', PInt 50, PInt 30]]"
  using centroid_truncated [of id "(code1_init 50 1000 False)\<lparr>frame_number := 7\<rparr>" "[]" "''2024-05-01 12:00:00''"]
  by (simp add: code1_init_def)

text \<open>
  Claim C7: the division by \<^verbatim>\<open>m00\<close> is guarded. In both files the loop over the contours
  always returns normally, so the \<^verbatim>\<open>ZeroDivisionError\<close> of \<open>py_truediv\<close> is never
  raised; and a region whose \<^verbatim>\<open>m00\<close> is zero is skipped: the result, records and tracker,
  is the same with and without it, wherever it stands among the contours.
\<close>

theorem zero_moment_skipped:
  "(\<exists>debris_positions. fst (code1_contours_loop fl contours acc self) = Inr debris_positions)
   \<and> (\<exists>debris_positions. fst (sdt_count_and_track_debris fl self (Inr contours)) = Inr debris_positions)
   \<and> (m00 c = 0 \<longrightarrow>
        code1_count_and_track_debris fl self (Inr (xs @ c # ys)) = code1_count_and_track_debris fl self (Inr (xs @ ys))
        \<and> sdt_count_and_track_debris fl self (Inr (xs @ c # ys)) = sdt_count_and_track_debris fl self (Inr (xs @ ys)))"
  by (simp add: code1_contours_loop_eq code1_count_Inr sdt_count_Inr)

theorem zero_moment_skipped_witness:
  "code1_count_and_track_debris id (code1_init (- 1) 1000 True)
       (Inr [\<lparr>area = 0, m00 = 0, m10 = 0, m01 = 0, now = ''t''\<rparr>]) = ([], code1_init (- 1) 1000 True)
   \<and> sdt_count_and_track_debris id (sdt_init\<lparr>min_area := - 1\<rparr>)
       (Inr [\<lparr>area = 0, m00 = 0, m10 = 0, m01 = 0, now = ''t''\<rparr>]) = (Inr [], sdt_init\<lparr>min_area := - 1\<rparr>)"
  using zero_moment_skipped [of id "[]" "[]" "code1_init (- 1) 1000 True" "\<lparr>area = 0, m00 = 0, m10 = 0, m01 = 0, now = ''t''\<rparr>" "[]" "[]"]
    zero_moment_skipped [of id "[]" "[]" "sdt_init\<lparr>min_area := - 1\<rparr>" "\<lparr>area = 0, m00 = 0, m10 = 0, m01 = 0, now = ''t''\<rparr>" "[]" "[]"]
  by (simp add: code1_init_def sdt_init_def code1_count_and_track_debris_def sdt_count_and_track_debris_def)


text \<open>
  Claim C10: \<^verbatim>\<open>debris_counter\<close> counts the records. In both files a call of
  \<^verbatim>\<open>count_and_track_debris\<close> adds to the counter the number of records it returns (none
  when it raises); after any run of the capture loop on a fresh tracker the counter is the
  number of records in the log; and starting, stopping, toggling the visualization,
  setting a threshold and loading a file leave the counter as it is.
\<close>

theorem counter_counts_records:
  "debris_counter (snd (code1_count_and_track_debris fl self frame)) =
     debris_counter self + int (length (fst (code1_count_and_track_debris fl self frame)))
   \<and> debris_counter (snd (sdt_count_and_track_debris fl self frame)) =
     debris_counter self
       + (case fst (sdt_count_and_track_debris fl self frame) of
            Inl e \<Rightarrow> 0 | Inr debris_positions \<Rightarrow> int (length debris_positions))
   \<and> debris_counter (snd (code1_update_debris_info fl passes (start_tracking (code1_init MinArea MaxArea Enabled)))) =
     int (length (debris_data (snd (code1_update_debris_info fl passes (start_tracking (code1_init MinArea MaxArea Enabled))))))
   \<and> debris_counter (snd (sdt_update_debris_info fl passes (start_tracking sdt_init))) =
     int (length (debris_data (snd (sdt_update_debris_info fl passes (start_tracking sdt_init)))))
   \<and> debris_counter (start_tracking self) = debris_counter self
   \<and> debris_counter (stop_tracking self) = debris_counter self
   \<and> debris_counter (toggle_visualization self) = debris_counter self
   \<and> debris_counter (set_min_area v self) = debris_counter self
   \<and> debris_counter (set_max_area v self) = debris_counter self
   \<and> debris_counter (snd (load_debris_data decrypt_message file self)) = debris_counter self"
proof -
  have c1: "debris_counter (snd (code1_count_and_track_debris fl self frame)) =
     debris_counter self + int (length (fst (code1_count_and_track_debris fl self frame)))"
    by (subst code1_count_snd) simp
  have c2: "debris_counter (snd (sdt_count_and_track_debris fl self frame)) =
     debris_counter self
       + (case fst (sdt_count_and_track_debris fl self frame) of
            Inl e \<Rightarrow> 0 | Inr debris_positions \<Rightarrow> int (length debris_positions))"
    by (cases frame) (simp_all add: sdt_count_Inl sdt_count_Inr)
  have c3: "debris_counter (snd (code1_update_debris_info fl passes (start_tracking (code1_init MinArea MaxArea Enabled)))) =
     int (length (debris_data (snd (code1_update_debris_info fl passes (start_tracking (code1_init MinArea MaxArea Enabled))))))"
    using code1_loop_counter [of fl passes "start_tracking (code1_init MinArea MaxArea Enabled)"]
    by (simp add: start_tracking_def code1_init_def)
  have c4: "debris_counter (snd (sdt_update_debris_info fl passes (start_tracking sdt_init))) =
     int (length (debris_data (snd (sdt_update_debris_info fl passes (start_tracking sdt_init)))))"
    using sdt_loop_counter [of fl passes "start_tracking sdt_init"]
    by (simp add: start_tracking_def sdt_init_def)
  show ?thesis
    using c1 c2 c3 c4
    by (simp add: start_tracking_def stop_tracking_def toggle_visualization_def
        set_min_area_def set_max_area_def load_counter)
qed

theorem counter_counts_records_witness:
  "debris_counter (snd (code1_update_debris_info id
      [\<lparr>stop_called = False,
        read = Some (Inr [\<lparr>area = 120, m00 = 120, m10 = 6000, m01 = 3600, now = ''t''\<rparr>,
                          \<lparr>area = 50, m00 = 50, m10 = 100, m01 = 100, now = ''t''\<rparr>]),
        key = - 1\<rparr>,
       \<lparr>stop_called = False, read = Some (Inl (PyException ''cv2.error'')), key = - 1\<rparr>]
      (start_tracking (code1_init 50 1000 False)))) = 1"
  using counter_counts_records [of id "code1_init 50 1000 False" "Inr []"
      "[\<lparr>stop_called = False,
        read = Some (Inr [\<lparr>area = 120, m00 = 120, m10 = 6000, m01 = 3600, now = ''t''\<rparr>,
                          \<lparr>area = 50, m00 = 50, m10 = 100, m01 = 100, now = ''t''\<rparr>]),
        key = - 1\<rparr>,
       \<lparr>stop_called = False, read = Some (Inl (PyException ''cv2.error'')), key = - 1\<rparr>]"
      50 1000 False 0 "\<lambda>s. Inr s" None]
  by (simp add: code1_init_def start_tracking_def code1_count_and_track_debris_def py_truediv_def)

section \<open>Claims about the capture loop\<close>

text \<open>
  Claim C8: after any run of the capture loop of \<^verbatim>\<open>code1.py\<close> on a fresh tracker, every
  record of the log starts with an integer frame number and these numbers, read in the
  order of the log, never decrease; and all records that one call of
  \<^verbatim>\<open>count_and_track_debris\<close> returns carry the frame number of that call.
\<close>

theorem frame_numbers_non_decreasing:
  "(\<exists>ns. log_frames (debris_data (snd (code1_update_debris_info fl passes
            (start_tracking (code1_init MinArea MaxArea Enabled))))) = Some ns \<and> sorted ns)
   \<and> (\<forall>r \<in> set (fst (code1_count_and_track_debris fl self frame)). frame_number_of r = Some (frame_number self))"
proof -
  have "log_frames (debris_data (start_tracking (code1_init MinArea MaxArea Enabled))) = Some []"
    by (simp add: start_tracking_def code1_init_def)
  from code1_loop_sorted [OF this, where passes = passes and fl = fl]
  show ?thesis by (simp add: code1_count_frames)
qed

theorem frame_numbers_non_decreasing_witness:
  "log_frames (debris_data (snd (code1_update_debris_info id
      [\<lparr>stop_called = False,
        read = Some (Inr [\<lparr>area = 120, m00 = 120, m10 = 6000, m01 = 3600, now = ''t''\<rparr>]),
        key = - 1\<rparr>,
       \<lparr>stop_called = False,
        read = Some (Inr [\<lparr>area = 120, m00 = 120, m10 = 6000, m01 = 3600, now = ''t''\<rparr>,
                          \<lparr>area = 200, m00 = 200, m10 = 400, m01 = 600, now = ''u''\<rparr>]),
        key = - 1\<rparr>]
      (start_tracking (code1_init 50 1000 False))))) = Some [1, 2, 2]
   \<and> frame_number_of [PInt 0, PStr ''Space Debris'', PStr ''t'', PInt 50, PInt 30] = Some 0"
  using frame_numbers_non_decreasing [of id
      "[\<lparr>stop_called = False,
        read = Some (Inr [\<lparr>area = 120, m00 = 120, m10 = 6000, m01 = 3600, now = ''t''\<rparr>]),
        key = - 1\<rparr>,
       \<lparr>stop_called = False,
        read = Some (Inr [\<lparr>area = 120, m00 = 120, m10 = 6000, m01 = 3600, now = ''t''\<rparr>,
                          \<lparr>area = 200, m00 = 200, m10 = 400, m01 = 600, now = ''u''\<rparr>]),
        key = - 1\<rparr>]" 50 1000 False "code1_init 50 1000 False"
      "Inr [\<lparr>area = 120, m00 = 120, m10 = 6000, m01 = 3600, now = ''t''\<rparr>]"]
  by (simp add: code1_init_def start_tracking_def code1_count_and_track_debris_def py_truediv_def py_int_def)



text \<open>
  Claim C6 says that a failure inside the pipeline is caught and counts as no detection.
  \<^verbatim>\<open>code1.py\<close> does so (\<open>code1_count_Inl\<close>, \<open>code1_never_raises\<close>).
  \<^verbatim>\<open>space_debris_tracker.py\<close> has no handler: on a first frame for which the OpenCV calls
  raise, its capture loop ends with that exception and the second frame is never read,
  while the loop of \<^verbatim>\<open>code1.py\<close> goes on to the second frame.
\<close>

theorem sdt_failure_ends_loop:
  "sdt_update_debris_info id
      [\<lparr>stop_called = False, read = Some (Inl (PyException ''cv2.error'')), key = - 1\<rparr>,
       \<lparr>stop_called = False, read = Some (Inr []), key = - 1\<rparr>]
      (start_tracking sdt_init)
     = (Raised (PyException ''cv2.error''), (start_tracking sdt_init)\<lparr>frame_number := 1\<rparr>)
   \<and> code1_update_debris_info id
      [\<lparr>stop_called = False, read = Some (Inl (PyException ''cv2.error'')), key = - 1\<rparr>,
       \<lparr>stop_called = False, read = Some (Inr []), key = - 1\<rparr>]
      (start_tracking (code1_init 50 1000 True))
     = (Running, (start_tracking (code1_init 50 1000 True))\<lparr>frame_number := 2\<rparr>)"
  by (simp add: sdt_init_def code1_init_def start_tracking_def sdt_count_and_track_debris_def
      code1_count_and_track_debris_def)

end
